theory Spec2Isabelle
  imports Main
begin

section \<open>A command-line front end to three cloud clients\<close>

text \<open>
  The program (\<^verbatim>\<open>aws-cli-custom.py\<close>) parses a command line and runs one of four
  operations, each a call on one of the clients \<^verbatim>\<open>ec2\<close>, \<^verbatim>\<open>s3\<close>, \<^verbatim>\<open>iam\<close> inside a
  \<^verbatim>\<open>try\<close> block whose handlers print a message. The clients are the environment of the
  program: they are a parameter of every function here, and everything the program does
  to the outside (a call on a client, a line printed) is recorded, in order, in an
  event list.
\<close>

subsection \<open>Exceptions\<close>

text \<open>
  The exceptions a call on a client can raise, each with the text \<^verbatim>\<open>str(e)\<close> gives. The
  handlers of the program tell three classes apart (\<^verbatim>\<open>ClientError\<close>,
  \<^verbatim>\<open>NoCredentialsError\<close>, \<^verbatim>\<open>FileNotFoundError\<close>); every other subclass of
  \<^verbatim>\<open>Exception\<close> (\<^verbatim>\<open>PartialCredentialsError\<close>, which the program imports and never
  names in a handler, among them) is \<open>OtherException\<close>. Interrupts, which are not
  subclasses of \<^verbatim>\<open>Exception\<close>, are not modelled.
\<close>

datatype exn =
    ClientError string
  | NoCredentialsError string
  | FileNotFoundError string
  | OtherException string

fun exn_str :: "exn \<Rightarrow> string" where
  "exn_str (ClientError m) = m"
| "exn_str (NoCredentialsError m) = m"
| "exn_str (FileNotFoundError m) = m"
| "exn_str (OtherException m) = m"

text \<open>The classes named in \<^verbatim>\<open>except\<close> clauses, and \<^verbatim>\<open>isinstance\<close> on them.\<close>

datatype exn_class = ClientErrorC | NoCredentialsErrorC | FileNotFoundErrorC | ExceptionC

fun isinstance :: "exn \<Rightarrow> exn_class \<Rightarrow> bool" where
  "isinstance e ExceptionC = True"
| "isinstance (ClientError m) ClientErrorC = True"
| "isinstance (NoCredentialsError m) NoCredentialsErrorC = True"
| "isinstance (FileNotFoundError m) FileNotFoundErrorC = True"
| "isinstance e c = False"

subsection \<open>The clients\<close>

text \<open>What \<^verbatim>\<open>describe_instances\<close> returns, as far as the program reads it.\<close>

record ec2_instance =
  InstanceId :: string

record reservation =
  Instances :: "ec2_instance list"

record describe_instances_response =
  Reservations :: "reservation list"

record ec2_filter =
  Name :: string
  Values :: "string list"

text \<open>
  The three clients, one field for each method the program calls. A method either raises
  (\<open>Inl\<close>) or returns (\<open>Inr\<close>); the program ignores what the last four return.
\<close>

record provider =
  ec2_describe_instances :: "ec2_filter list \<Rightarrow> exn + describe_instances_response"
  ec2_start_instances :: "string list \<Rightarrow> exn + unit"
  ec2_stop_instances :: "string list \<Rightarrow> exn + unit"
  s3_upload_file :: "string \<Rightarrow> string \<Rightarrow> string \<Rightarrow> exn + unit"
  iam_create_policy :: "string \<Rightarrow> string \<Rightarrow> exn + unit"

text \<open>A call on a client, with its arguments under the names the SDK gives them.\<close>

datatype call =
    DescribeInstances (Filters: "ec2_filter list")
  | StartInstances (InstanceIds: "string list")
  | StopInstances (InstanceIds: "string list")
  | UploadFile (Filename: string) (Bucket: string) (Key: string)
  | CreatePolicy (PolicyName: string) (PolicyDocument: string)

subsection \<open>The argument parser's reports\<close>

datatype parse_error =
    InvalidChoice string
  | RequiredArguments "string list"
  | UnrecognizedArguments "string list"

subsection \<open>Events and results\<close>

datatype event =
    Call call
  | Print string
  | PrintHelp
  | PrintUsage
  | ParserError parse_error
  | Traceback exn

text \<open>
  A computation yields the events it caused and then either raises or returns a value.
\<close>

type_synonym 'a result = "event list \<times> (exn + 'a)"

definition ret :: "'a \<Rightarrow> 'a result" where
  "ret v = ([], Inr v)"

definition and_then :: "'a result \<Rightarrow> ('a \<Rightarrow> 'b result) \<Rightarrow> 'b result" where
  "and_then m f =
     (case m of
        (out, Inl e) \<Rightarrow> (out, Inl e)
      | (out, Inr v) \<Rightarrow> (case f v of (out', r) \<Rightarrow> (out @ out', r)))"

definition print :: "string \<Rightarrow> unit result" where
  "print s = ([Print s], Inr ())"

definition call_provider :: "call \<Rightarrow> exn + 'a \<Rightarrow> 'a result" where
  "call_provider c r = ([Call c], r)"

text \<open>
  \<^verbatim>\<open>try: body except C1 as e: h1 ... except Cn as e: hn\<close>: the first clause whose class
  the exception is an instance of handles it; with no such clause it propagates.
\<close>

fun catch :: "(exn_class \<times> (exn \<Rightarrow> 'a result)) list \<Rightarrow> exn \<Rightarrow> 'a result" where
  "catch [] e = ([], Inl e)"
| "catch ((c, h) # hs) e = (if isinstance e c then h e else catch hs e)"

definition try_except :: "'a result \<Rightarrow> (exn_class \<times> (exn \<Rightarrow> 'a result)) list \<Rightarrow> 'a result" where
  "try_except body handlers =
     (case body of
        (out, Inr v) \<Rightarrow> (out, Inr v)
      | (out, Inl e) \<Rightarrow> (case catch handlers e of (out', r) \<Rightarrow> (out @ out', r)))"

text \<open>\<^verbatim>\<open>sep.join(xs)\<close> on a list of strings.\<close>

fun join :: "string \<Rightarrow> string list \<Rightarrow> string" where
  "join sep [] = []"
| "join sep [x] = x"
| "join sep (x # y # ys) = x @ sep @ join sep (y # ys)"

text \<open>The calls among the events of a run, in order.\<close>

fun calls_of :: "event list \<Rightarrow> call list" where
  "calls_of [] = []"
| "calls_of (Call c # es) = c # calls_of es"
| "calls_of (e # es) = calls_of es"

subsection \<open>The instance resolver\<close>

text \<open>
  \<^verbatim>\<open>Filters=[{'Name': 'tag:Name', 'Values': [instance_name]}]\<close>
\<close>

definition name_filters :: "string \<Rightarrow> ec2_filter list" where
  "name_filters instance_name = [\<lparr>Name = ''tag:Name'', Values = [instance_name]\<rparr>]"

text \<open>
  The two nested \<^verbatim>\<open>for\<close> loops that append each instance's id to
  \<^verbatim>\<open>instance_ids\<close>, starting from the empty list.
\<close>

definition collect_instance_ids :: "describe_instances_response \<Rightarrow> string list" where
  "collect_instance_ids response =
     fold (\<lambda>reservation instance_ids.
             fold (\<lambda>instance instance_ids. instance_ids @ [InstanceId instance])
               (Instances reservation) instance_ids)
       (Reservations response) []"

definition get_instance_id_by_name :: "provider \<Rightarrow> string \<Rightarrow> string list option result" where
  "get_instance_id_by_name p instance_name =
     try_except
       (and_then
          (call_provider (DescribeInstances (name_filters instance_name))
             (ec2_describe_instances p (name_filters instance_name)))
          (\<lambda>response.
             let instance_ids = collect_instance_ids response in
             if instance_ids = [] then
               and_then (print (''No instances found with the name: '' @ instance_name))
                 (\<lambda>_. ret None)
             else ret (Some instance_ids)))
       [(ClientErrorC, \<lambda>e.
           and_then (print (''Failed to retrieve instance ID: '' @ exn_str e)) (\<lambda>_. ret None)),
        (ExceptionC, \<lambda>e.
           and_then (print (''Unexpected error: '' @ exn_str e)) (\<lambda>_. ret None))]"

subsection \<open>The four operations\<close>

text \<open>
  \<^verbatim>\<open>if instance_ids:\<close> holds for a list that is neither \<^verbatim>\<open>None\<close> nor empty.
\<close>

definition start_ec2 :: "provider \<Rightarrow> string \<Rightarrow> unit result" where
  "start_ec2 p instance_name =
     try_except
       (and_then (get_instance_id_by_name p instance_name)
          (\<lambda>instance_ids.
             case instance_ids of
               None \<Rightarrow> ret ()
             | Some ids \<Rightarrow>
                 if ids = [] then ret ()
                 else
                   and_then (call_provider (StartInstances ids) (ec2_start_instances p ids))
                     (\<lambda>_. print (''Starting instance(s): '' @ join '', '' ids))))
       [(ClientErrorC, \<lambda>e. print (''Failed to start instance(s): '' @ exn_str e)),
        (ExceptionC, \<lambda>e. print (''Unexpected error: '' @ exn_str e))]"

definition stop_ec2 :: "provider \<Rightarrow> string \<Rightarrow> unit result" where
  "stop_ec2 p instance_name =
     try_except
       (and_then (get_instance_id_by_name p instance_name)
          (\<lambda>instance_ids.
             case instance_ids of
               None \<Rightarrow> ret ()
             | Some ids \<Rightarrow>
                 if ids = [] then ret ()
                 else
                   and_then (call_provider (StopInstances ids) (ec2_stop_instances p ids))
                     (\<lambda>_. print (''Stopping instance(s): '' @ join '', '' ids))))
       [(ClientErrorC, \<lambda>e. print (''Failed to stop instance(s): '' @ exn_str e)),
        (ExceptionC, \<lambda>e. print (''Unexpected error: '' @ exn_str e))]"

definition upload_file_s3 :: "provider \<Rightarrow> string \<Rightarrow> string \<Rightarrow> unit result" where
  "upload_file_s3 p bucket_name file_name =
     try_except
       (and_then
          (call_provider (UploadFile file_name bucket_name file_name)
             (s3_upload_file p file_name bucket_name file_name))
          (\<lambda>_. print (''Uploaded '' @ file_name @ '' to '' @ bucket_name)))
       [(FileNotFoundErrorC, \<lambda>e. print (''File '' @ file_name @ '' not found'')),
        (NoCredentialsErrorC, \<lambda>e. print ''AWS credentials not found''),
        (ClientErrorC, \<lambda>e. print (''Failed to upload file to S3: '' @ exn_str e)),
        (ExceptionC, \<lambda>e. print (''Unexpected error: '' @ exn_str e))]"

definition create_policy :: "provider \<Rightarrow> string \<Rightarrow> string \<Rightarrow> unit result" where
  "create_policy p policy_name policy_document =
     try_except
       (and_then
          (call_provider (CreatePolicy policy_name policy_document)
             (iam_create_policy p policy_name policy_document))
          (\<lambda>response. print (''Created policy '' @ policy_name)))
       [(ClientErrorC, \<lambda>e. print (''Failed to create policy: '' @ exn_str e)),
        (ExceptionC, \<lambda>e. print (''Unexpected error: '' @ exn_str e))]"

subsection \<open>The argument parser\<close>

text \<open>
  What \<^verbatim>\<open>parser.parse_args()\<close> leaves in \<^verbatim>\<open>args\<close>: the subcommand (\<^verbatim>\<open>dest='command'\<close>,
  \<^verbatim>\<open>None\<close> when there is none) and the positional arguments of the subparsers. A field
  that is \<^verbatim>\<open>None\<close> or that the chosen subparser does not set is \<open>None\<close>.
\<close>

record namespace =
  command :: "string option"
  instance_name :: "string option"
  bucket_name :: "string option"
  file_name :: "string option"
  policy_name :: "string option"
  policy_document :: "string option"

definition empty_namespace :: namespace where
  "empty_namespace =
     \<lparr>command = None, instance_name = None, bucket_name = None, file_name = None,
      policy_name = None, policy_document = None\<rparr>"

definition setattr :: "namespace \<Rightarrow> string \<Rightarrow> string \<Rightarrow> namespace" where
  "setattr ns dest v =
     (if dest = ''instance_name'' then ns\<lparr>instance_name := Some v\<rparr>
      else if dest = ''bucket_name'' then ns\<lparr>bucket_name := Some v\<rparr>
      else if dest = ''file_name'' then ns\<lparr>file_name := Some v\<rparr>
      else if dest = ''policy_name'' then ns\<lparr>policy_name := Some v\<rparr>
      else if dest = ''policy_document'' then ns\<lparr>policy_document := Some v\<rparr>
      else ns)"

text \<open>
  The subparsers \<^verbatim>\<open>main\<close> adds, each with its positional arguments in the order of the
  \<^verbatim>\<open>add_argument\<close> calls.
\<close>

definition subparsers :: "(string \<times> string list) list" where
  "subparsers =
     [(''start-ec2'', [''instance_name'']),
      (''stop-ec2'', [''instance_name'']),
      (''upload-s3'', [''bucket_name'', ''file_name'']),
      (''create-policy'', [''policy_name'', ''policy_document''])]"

text \<open>
  \<^verbatim>\<open>parse_args\<close> either returns a namespace or leaves the process through
  \<^verbatim>\<open>parser.exit(status)\<close>, after what it printed.
\<close>

datatype parse_result =
    Parsed namespace
  | ParserExit "event list" nat

text \<open>An argument that the parser may read as an option: it begins with \<^verbatim>\<open>-\<close>.\<close>

definition option_like :: "string \<Rightarrow> bool" where
  "option_like a = (case a of [] \<Rightarrow> False | c # cs \<Rightarrow> c = CHR ''-'')"

text \<open>
  \<^verbatim>\<open>parser.parse_args()\<close> on the arguments after the program name, for the parser
  \<^verbatim>\<open>main\<close> builds. The library (\<^verbatim>\<open>argparse\<close>) is not part of the program; this is its
  behaviour on positional arguments:
  \<^item> with no argument, the subparsers action (not required) takes nothing and
    \<^verbatim>\<open>command\<close> keeps its default \<^verbatim>\<open>None\<close>;
  \<^item> a first argument that names no subparser is an invalid choice: usage and the error
    are printed and the process exits with status 2;
  \<^item> the chosen subparser takes one argument for each of its positionals; missing ones
    are reported by name, surplus ones as unrecognized, both with exit status 2.
  What the library does with a command line that has an option-like argument (\<^verbatim>\<open>-h\<close>,
  abbreviations, \<^verbatim>\<open>--\<close>, strings that look like negative numbers) varies with its
  version; it is the parameter \<open>optionals\<close>.
\<close>

definition parse_args :: "(string list \<Rightarrow> parse_result) \<Rightarrow> string list \<Rightarrow> parse_result" where
  "parse_args optionals argv =
     (if list_ex option_like argv then optionals argv
      else
        case argv of
          [] \<Rightarrow> Parsed empty_namespace
        | parser_name # arg_strings \<Rightarrow>
            (case map_of subparsers parser_name of
               None \<Rightarrow> ParserExit [PrintUsage, ParserError (InvalidChoice parser_name)] 2
             | Some positionals \<Rightarrow>
                 if length arg_strings < length positionals then
                   ParserExit
                     [PrintUsage,
                      ParserError (RequiredArguments (drop (length arg_strings) positionals))] 2
                 else if length positionals < length arg_strings then
                   ParserExit
                     [PrintUsage,
                      ParserError (UnrecognizedArguments (drop (length positionals) arg_strings))] 2
                 else
                   Parsed
                     (fold (\<lambda>(dest, v) ns. setattr ns dest v) (zip positionals arg_strings)
                        (empty_namespace\<lparr>command := Some parser_name\<rparr>))))"

subsection \<open>The dispatcher\<close>

text \<open>
  The \<^verbatim>\<open>if\<close>/\<^verbatim>\<open>elif\<close> chain of \<^verbatim>\<open>main\<close> on the parsed arguments. \<^verbatim>\<open>not x\<close> holds for
  \<^verbatim>\<open>None\<close> and for the empty string.
\<close>

definition dispatch :: "provider \<Rightarrow> namespace \<Rightarrow> unit result" where
  "dispatch p args =
     (if command args = Some ''start-ec2'' then
        (case instance_name args of
           Some n \<Rightarrow>
             if n = [] then print ''Error: 'instance_name' is required for start-ec2''
             else start_ec2 p n
         | None \<Rightarrow> print ''Error: 'instance_name' is required for start-ec2'')
      else if command args = Some ''stop-ec2'' then
        (case instance_name args of
           Some n \<Rightarrow>
             if n = [] then print ''Error: 'instance_name' is required for stop-ec2''
             else stop_ec2 p n
         | None \<Rightarrow> print ''Error: 'instance_name' is required for stop-ec2'')
      else if command args = Some ''upload-s3'' then
        (case (bucket_name args, file_name args) of
           (Some b, Some f) \<Rightarrow>
             if b = [] \<or> f = [] then
               print ''Error: Both 'bucket_name' and 'file_name' are required for upload-s3''
             else upload_file_s3 p b f
         | _ \<Rightarrow> print ''Error: Both 'bucket_name' and 'file_name' are required for upload-s3'')
      else if command args = Some ''create-policy'' then
        (case (policy_name args, policy_document args) of
           (Some n, Some d) \<Rightarrow>
             if n = [] \<or> d = [] then
               print
                 ''Error: Both 'policy_name' and 'policy_document' are required for create-policy''
             else create_policy p n d
         | _ \<Rightarrow>
             print
               ''Error: Both 'policy_name' and 'policy_document' are required for create-policy'')
      else ([PrintHelp], Inr ()))"

text \<open>
  The whole run: the events and the exit status of the process. A parser exit gives the
  parser's status; a return from \<^verbatim>\<open>main\<close> gives 0; an exception that leaves \<^verbatim>\<open>main\<close>
  prints a traceback and gives 1.
\<close>

definition main :: "(string list \<Rightarrow> parse_result) \<Rightarrow> provider \<Rightarrow> string list \<Rightarrow> event list \<times> nat" where
  "main optionals p argv =
     (case parse_args optionals argv of
        ParserExit out status \<Rightarrow> (out, status)
      | Parsed args \<Rightarrow>
          (case dispatch p args of
             (out, Inr u) \<Rightarrow> (out, 0)
           | (out, Inl e) \<Rightarrow> (out @ [Traceback e], 1)))"

subsection \<open>The SDK's upload and the local file system\<close>





subsection \<open>Test doubles\<close>

text \<open>
  A fake set of clients: \<open>described\<close> is what \<^verbatim>\<open>describe_instances\<close> does, \<open>other\<close> what
  every other call does. A stand-in for the library's option handling that refuses
  every command line. And a world with one local file, in which every call that goes out
  sends one request.
\<close>

definition fake_provider :: "exn + describe_instances_response \<Rightarrow> exn + unit \<Rightarrow> provider" where
  "fake_provider described other =
     \<lparr>ec2_describe_instances = (\<lambda>filters. described),
      ec2_start_instances = (\<lambda>ids. other),
      ec2_stop_instances = (\<lambda>ids. other),
      s3_upload_file = (\<lambda>filename bucket key. other),
      iam_create_policy = (\<lambda>name document. other)\<rparr>"

definition two_instances :: describe_instances_response where
  "two_instances =
     \<lparr>Reservations =
        [\<lparr>Instances = [\<lparr>InstanceId = ''i-0001''\<rparr>]\<rparr>,
         \<lparr>Instances = [\<lparr>InstanceId = ''i-0002''\<rparr>]\<rparr>]\<rparr>"

definition no_instances :: describe_instances_response where
  "no_instances = \<lparr>Reservations = [\<lparr>Instances = []\<rparr>]\<rparr>"

definition refuse_optionals :: "string list \<Rightarrow> parse_result" where
  "refuse_optionals argv =
     ParserExit [PrintUsage, ParserError (UnrecognizedArguments argv)] 2"


section \<open>Lemmas on the building blocks\<close>

lemma and_then_simps:
  "and_then (out, Inl e) f = (out, Inl e)"
  "and_then (out, Inr v) f = (out @ fst (f v), snd (f v))"
  by (simp_all add: and_then_def split: prod.splits)

lemma try_except_simps:
  "try_except (out, Inr v) hs = (out, Inr v)"
  "try_except (out, Inl e) hs = (out @ fst (catch hs e), snd (catch hs e))"
  by (simp_all add: try_except_def split: prod.splits)

lemma fold_append_ids:
  "fold (\<lambda>i acc. acc @ [InstanceId i]) xs acc = acc @ map InstanceId xs"
  by (induction xs arbitrary: acc) simp_all

lemma fold_reservations:
  "fold (\<lambda>r acc. fold (\<lambda>i acc. acc @ [InstanceId i]) (Instances r) acc) rs acc =
     acc @ concat (map (\<lambda>r. map InstanceId (Instances r)) rs)"
  by (induction rs arbitrary: acc) (simp_all add: fold_append_ids)

lemma collect_instance_ids_concat:
  "collect_instance_ids response =
     concat (map (\<lambda>r. map InstanceId (Instances r)) (Reservations response))"
  by (simp add: collect_instance_ids_def fold_reservations)

lemma no_ids_iff:
  "collect_instance_ids response = [] \<longleftrightarrow> (\<forall>r \<in> set (Reservations response). Instances r = [])"
  by (simp add: collect_instance_ids_concat)

subsection \<open>The resolver and the operations, case by case\<close>

lemma resolver_raise:
  assumes "ec2_describe_instances p (name_filters n) = Inl e"
  shows "get_instance_id_by_name p n =
     ([Call (DescribeInstances (name_filters n)),
       Print ((if isinstance e ClientErrorC then ''Failed to retrieve instance ID: ''
               else ''Unexpected error: '') @ exn_str e)], Inr None)"
  using assms
  by (cases e)
    (simp_all add: get_instance_id_by_name_def call_provider_def print_def ret_def
      and_then_simps try_except_simps)

lemma resolver_return:
  assumes "ec2_describe_instances p (name_filters n) = Inr r"
  shows "get_instance_id_by_name p n =
     (if collect_instance_ids r = [] then
        ([Call (DescribeInstances (name_filters n)),
          Print (''No instances found with the name: '' @ n)], Inr None)
      else ([Call (DescribeInstances (name_filters n))], Inr (Some (collect_instance_ids r))))"
  using assms
  by (simp add: get_instance_id_by_name_def call_provider_def print_def ret_def
      and_then_simps try_except_simps Let_def)

lemma resolver_Some:
  assumes "snd (get_instance_id_by_name p n) = Inr (Some ids)"
  shows "\<exists>response. ec2_describe_instances p (name_filters n) = Inr response
           \<and> ids = collect_instance_ids response \<and> ids \<noteq> []
           \<and> get_instance_id_by_name p n = ([Call (DescribeInstances (name_filters n))], Inr (Some ids))"
proof (cases "ec2_describe_instances p (name_filters n)")
  case (Inl e)
  with assms show ?thesis by (simp add: resolver_raise)
next
  case (Inr r)
  with assms show ?thesis by (auto simp: resolver_return split: if_splits)
qed

lemma start_ec2_after_resolver:
  assumes "get_instance_id_by_name p n = (out, Inr (Some ids))" and "ids \<noteq> []"
  shows "start_ec2 p n =
     (case ec2_start_instances p ids of
        Inr u \<Rightarrow>
          (out @ [Call (StartInstances ids), Print (''Starting instance(s): '' @ join '', '' ids)],
           Inr ())
      | Inl e \<Rightarrow>
          (out @ [Call (StartInstances ids),
                  Print ((if isinstance e ClientErrorC then ''Failed to start instance(s): ''
                          else ''Unexpected error: '') @ exn_str e)],
           Inr ()))"
proof (cases "ec2_start_instances p ids")
  case (Inl e)
  with assms show ?thesis
    by (cases e)
      (simp_all add: start_ec2_def call_provider_def print_def ret_def
        and_then_simps try_except_simps)
next
  case (Inr u)
  with assms show ?thesis
    by (simp add: start_ec2_def call_provider_def print_def ret_def
        and_then_simps try_except_simps)
qed

lemma stop_ec2_after_resolver:
  assumes "get_instance_id_by_name p n = (out, Inr (Some ids))" and "ids \<noteq> []"
  shows "stop_ec2 p n =
     (case ec2_stop_instances p ids of
        Inr u \<Rightarrow>
          (out @ [Call (StopInstances ids), Print (''Stopping instance(s): '' @ join '', '' ids)],
           Inr ())
      | Inl e \<Rightarrow>
          (out @ [Call (StopInstances ids),
                  Print ((if isinstance e ClientErrorC then ''Failed to stop instance(s): ''
                          else ''Unexpected error: '') @ exn_str e)],
           Inr ()))"
proof (cases "ec2_stop_instances p ids")
  case (Inl e)
  with assms show ?thesis
    by (cases e)
      (simp_all add: stop_ec2_def call_provider_def print_def ret_def
        and_then_simps try_except_simps)
next
  case (Inr u)
  with assms show ?thesis
    by (simp add: stop_ec2_def call_provider_def print_def ret_def
        and_then_simps try_except_simps)
qed

lemma start_ec2_no_ids:
  assumes "get_instance_id_by_name p n = (out, Inr None)"
  shows "start_ec2 p n = (out, Inr ())"
  using assms by (simp add: start_ec2_def ret_def and_then_simps try_except_simps)

lemma stop_ec2_no_ids:
  assumes "get_instance_id_by_name p n = (out, Inr None)"
  shows "stop_ec2 p n = (out, Inr ())"
  using assms by (simp add: stop_ec2_def ret_def and_then_simps try_except_simps)

lemma upload_file_s3_cases:
  "upload_file_s3 p bucket file =
     (case s3_upload_file p file bucket file of
        Inr u \<Rightarrow>
          ([Call (UploadFile file bucket file),
            Print (''Uploaded '' @ file @ '' to '' @ bucket)], Inr ())
      | Inl (FileNotFoundError m) \<Rightarrow>
          ([Call (UploadFile file bucket file), Print (''File '' @ file @ '' not found'')],
           Inr ())
      | Inl (NoCredentialsError m) \<Rightarrow>
          ([Call (UploadFile file bucket file), Print ''AWS credentials not found''], Inr ())
      | Inl (ClientError m) \<Rightarrow>
          ([Call (UploadFile file bucket file), Print (''Failed to upload file to S3: '' @ m)],
           Inr ())
      | Inl (OtherException m) \<Rightarrow>
          ([Call (UploadFile file bucket file), Print (''Unexpected error: '' @ m)], Inr ()))"
proof (cases "s3_upload_file p file bucket file")
  case (Inl e)
  then show ?thesis
    by (cases e)
      (simp_all add: upload_file_s3_def call_provider_def print_def
        and_then_simps try_except_simps)
next
  case (Inr u)
  then show ?thesis
    by (simp add: upload_file_s3_def call_provider_def print_def
        and_then_simps try_except_simps)
qed

lemma create_policy_cases:
  "create_policy p name doc =
     (case iam_create_policy p name doc of
        Inr u \<Rightarrow> ([Call (CreatePolicy name doc), Print (''Created policy '' @ name)], Inr ())
      | Inl e \<Rightarrow>
          ([Call (CreatePolicy name doc),
            Print ((if isinstance e ClientErrorC then ''Failed to create policy: ''
                    else ''Unexpected error: '') @ exn_str e)], Inr ()))"
proof (cases "iam_create_policy p name doc")
  case (Inl e)
  then show ?thesis
    by (cases e)
      (simp_all add: create_policy_def call_provider_def print_def
        and_then_simps try_except_simps)
next
  case (Inr u)
  then show ?thesis
    by (simp add: create_policy_def call_provider_def print_def
        and_then_simps try_except_simps)
qed

subsection \<open>Nothing is raised\<close>

lemma resolver_returns: "\<exists>out v. get_instance_id_by_name p n = (out, Inr v)"
  by (cases "ec2_describe_instances p (name_filters n)")
    (simp_all add: resolver_raise resolver_return)

lemma start_ec2_returns: "snd (start_ec2 p n) = Inr ()"
proof -
  obtain out v where g: "get_instance_id_by_name p n = (out, Inr v)"
    using resolver_returns by blast
  show ?thesis
  proof (cases v)
    case None
    with g show ?thesis by (simp add: start_ec2_no_ids)
  next
    case (Some ids)
    with g have "snd (get_instance_id_by_name p n) = Inr (Some ids)" by simp
    from resolver_Some [OF this] have "ids \<noteq> []" by blast
    with g Some show ?thesis
      by (simp add: start_ec2_after_resolver split: sum.splits)
  qed
qed

lemma stop_ec2_returns: "snd (stop_ec2 p n) = Inr ()"
proof -
  obtain out v where g: "get_instance_id_by_name p n = (out, Inr v)"
    using resolver_returns by blast
  show ?thesis
  proof (cases v)
    case None
    with g show ?thesis by (simp add: stop_ec2_no_ids)
  next
    case (Some ids)
    with g have "snd (get_instance_id_by_name p n) = Inr (Some ids)" by simp
    from resolver_Some [OF this] have "ids \<noteq> []" by blast
    with g Some show ?thesis
      by (simp add: stop_ec2_after_resolver split: sum.splits)
  qed
qed

lemma upload_file_s3_returns: "snd (upload_file_s3 p b f) = Inr ()"
  by (simp add: upload_file_s3_cases split: sum.splits exn.splits)

lemma create_policy_returns: "snd (create_policy p n d) = Inr ()"
  by (simp add: create_policy_cases split: sum.splits)

lemma dispatch_returns: "snd (dispatch p args) = Inr ()"
  by (simp add: dispatch_def print_def start_ec2_returns stop_ec2_returns
      upload_file_s3_returns create_policy_returns split: option.splits)

lemma main_cases:
  "main optionals p argv =
     (case parse_args optionals argv of
        ParserExit out status \<Rightarrow> (out, status)
      | Parsed a \<Rightarrow> (fst (dispatch p a), 0))"
proof (cases "parse_args optionals argv")
  case (Parsed a)
  obtain out r where d: "dispatch p a = (out, r)" by (cases "dispatch p a")
  with dispatch_returns [of p a] have "r = Inr ()" by simp
  with Parsed d show ?thesis by (simp add: main_def)
next
  case (ParserExit out status)
  then show ?thesis by (simp add: main_def)
qed

subsection \<open>What is printed when a call raises\<close>

lemma start_ec2_start_raised:
  assumes "snd (get_instance_id_by_name p n) = Inr (Some ids)"
    and "ec2_start_instances p ids = Inl e"
  shows "start_ec2 p n =
     ([Call (DescribeInstances (name_filters n)), Call (StartInstances ids),
       Print ((if isinstance e ClientErrorC then ''Failed to start instance(s): ''
               else ''Unexpected error: '') @ exn_str e)], Inr ())"
proof -
  from resolver_Some [OF assms(1)] have ne: "ids \<noteq> []" and
    g: "get_instance_id_by_name p n = ([Call (DescribeInstances (name_filters n))], Inr (Some ids))"
    by blast+
  show ?thesis
    by (simp add: start_ec2_after_resolver [OF g ne] assms(2))
qed

lemma stop_ec2_stop_raised:
  assumes "snd (get_instance_id_by_name p n) = Inr (Some ids)"
    and "ec2_stop_instances p ids = Inl e"
  shows "stop_ec2 p n =
     ([Call (DescribeInstances (name_filters n)), Call (StopInstances ids),
       Print ((if isinstance e ClientErrorC then ''Failed to stop instance(s): ''
               else ''Unexpected error: '') @ exn_str e)], Inr ())"
proof -
  from resolver_Some [OF assms(1)] have ne: "ids \<noteq> []" and
    g: "get_instance_id_by_name p n = ([Call (DescribeInstances (name_filters n))], Inr (Some ids))"
    by blast+
  show ?thesis
    by (simp add: stop_ec2_after_resolver [OF g ne] assms(2))
qed

lemma upload_raised:
  assumes "s3_upload_file p f b f = Inl e"
  shows "upload_file_s3 p b f =
     ([Call (UploadFile f b f),
       Print (case e of
                FileNotFoundError m \<Rightarrow> ''File '' @ f @ '' not found''
              | NoCredentialsError m \<Rightarrow> ''AWS credentials not found''
              | ClientError m \<Rightarrow> ''Failed to upload file to S3: '' @ m
              | OtherException m \<Rightarrow> ''Unexpected error: '' @ m)], Inr ())"
  using assms by (cases e) (simp_all add: upload_file_s3_cases)

lemma create_raised:
  assumes "iam_create_policy p n d = Inl e"
  shows "create_policy p n d =
     ([Call (CreatePolicy n d),
       Print ((if isinstance e ClientErrorC then ''Failed to create policy: ''
               else ''Unexpected error: '') @ exn_str e)], Inr ())"
  using assms by (simp add: create_policy_cases)

subsection \<open>The parser and the dispatcher\<close>

lemma subparsers_distinct: "distinct (map fst subparsers)"
  by (simp add: subparsers_def)

lemma subparser_not_option_like:
  assumes "(cmd, positionals) \<in> set subparsers"
  shows "\<not> option_like cmd"
  using assms by (auto simp: subparsers_def option_like_def)

lemma empty_not_option_like: "\<not> option_like ''''"
  by (simp add: option_like_def)

lemma parse_args_empty: "parse_args optionals [] = Parsed empty_namespace"
  by (simp add: parse_args_def)

lemma parse_args_missing:
  assumes "(cmd, positionals) \<in> set subparsers"
    and "\<not> list_ex option_like arg_strings"
    and "length arg_strings < length positionals"
  shows "parse_args optionals (cmd # arg_strings) =
     ParserExit
       [PrintUsage, ParserError (RequiredArguments (drop (length arg_strings) positionals))] 2"
proof -
  have m: "map_of subparsers cmd = Some positionals"
    using subparsers_distinct assms(1) by (rule map_of_is_SomeI)
  have o: "\<not> list_ex option_like (cmd # arg_strings)"
    using subparser_not_option_like [OF assms(1)] assms(2) by simp
  show ?thesis
    using assms(3) by (simp add: parse_args_def o m del: list_ex_Cons_iff)
qed

lemma parse_args_invalid_choice:
  assumes "\<not> list_ex option_like (c # rest)" and "c \<notin> set (map fst subparsers)"
  shows "parse_args optionals (c # rest) =
     ParserExit [PrintUsage, ParserError (InvalidChoice c)] 2"
proof -
  have m: "map_of subparsers c = None"
    using assms(2) by (simp add: map_of_eq_None_iff)
  show ?thesis
    by (simp add: parse_args_def assms(1) m del: list_ex_Cons_iff)
qed

lemma parse_one:
  "parse_args optionals [''start-ec2'', ''''] =
     Parsed (empty_namespace\<lparr>command := Some ''start-ec2'', instance_name := Some ''''\<rparr>)"
  "parse_args optionals [''stop-ec2'', ''''] =
     Parsed (empty_namespace\<lparr>command := Some ''stop-ec2'', instance_name := Some ''''\<rparr>)"
  by (simp_all add: parse_args_def option_like_def subparsers_def setattr_def)

lemma parse_two:
  assumes "\<not> option_like x" and "\<not> option_like y"
  shows "parse_args optionals [''upload-s3'', x, y] =
     Parsed (empty_namespace\<lparr>command := Some ''upload-s3'', bucket_name := Some x,
       file_name := Some y\<rparr>)"
    and "parse_args optionals [''create-policy'', x, y] =
     Parsed (empty_namespace\<lparr>command := Some ''create-policy'', policy_name := Some x,
       policy_document := Some y\<rparr>)"
proof -
  have u: "\<not> option_like ''upload-s3''" and c: "\<not> option_like ''create-policy''"
    by (simp_all add: option_like_def)
  show "parse_args optionals [''upload-s3'', x, y] =
     Parsed (empty_namespace\<lparr>command := Some ''upload-s3'', bucket_name := Some x,
       file_name := Some y\<rparr>)"
    using assms u by (simp add: parse_args_def subparsers_def setattr_def)
  show "parse_args optionals [''create-policy'', x, y] =
     Parsed (empty_namespace\<lparr>command := Some ''create-policy'', policy_name := Some x,
       policy_document := Some y\<rparr>)"
    using assms c by (simp add: parse_args_def subparsers_def setattr_def)
qed

lemma parse_start_web1:
  "parse_args optionals [''start-ec2'', ''web-1''] =
     Parsed (empty_namespace\<lparr>command := Some ''start-ec2'', instance_name := Some ''web-1''\<rparr>)"
  by (simp add: parse_args_def option_like_def subparsers_def setattr_def)

lemma command_setattr: "command (setattr ns dest v) = command ns"
  by (simp add: setattr_def)

lemma command_fold_setattr:
  "command (fold (\<lambda>(dest, v) ns. setattr ns dest v) xs ns) = command ns"
  by (induction xs arbitrary: ns) (auto simp: command_setattr)

lemma parsed_command:
  assumes "\<not> list_ex option_like argv" and "parse_args optionals argv = Parsed ns"
    and "command ns \<notin> Some ` set (map fst subparsers)"
  shows "argv = []"
proof (cases argv)
  case Nil
  then show ?thesis .
next
  case (Cons c rest)
  show ?thesis
  proof (cases "map_of subparsers c")
    case None
    with assms(1,2) Cons show ?thesis
      by (simp add: parse_args_def del: list_ex_Cons_iff)
  next
    case (Some positionals)
    then have "c \<in> set (map fst subparsers)"
      by (metis map_of_eq_None_iff option.distinct(1) set_map)
    moreover from assms(1,2) Cons Some have "command ns = Some c"
      by (auto simp: parse_args_def command_fold_setattr simp del: list_ex_Cons_iff
          split: if_splits)
    ultimately show ?thesis using assms(3) by simp
  qed
qed

lemma main_parsed:
  assumes "parse_args optionals argv = Parsed ns" and "dispatch p ns = (out, Inr ())"
  shows "main optionals p argv = (out, 0)"
  using assms by (simp add: main_def)

lemma dispatch_help:
  assumes "command ns \<notin> Some ` set (map fst subparsers)"
  shows "dispatch p ns = ([PrintHelp], Inr ())"
  using assms by (simp add: dispatch_def subparsers_def)

lemma dispatch_absent:
  "command ns = Some ''start-ec2'' \<and> instance_name ns = None \<longrightarrow>
     dispatch p ns = ([Print ''Error: 'instance_name' is required for start-ec2''], Inr ())"
  "command ns = Some ''stop-ec2'' \<and> instance_name ns = None \<longrightarrow>
     dispatch p ns = ([Print ''Error: 'instance_name' is required for stop-ec2''], Inr ())"
  "command ns = Some ''upload-s3'' \<and> (bucket_name ns = None \<or> file_name ns = None) \<longrightarrow>
     dispatch p ns =
       ([Print ''Error: Both 'bucket_name' and 'file_name' are required for upload-s3''],
        Inr ())"
  "command ns = Some ''create-policy'' \<and> (policy_name ns = None \<or> policy_document ns = None) \<longrightarrow>
     dispatch p ns =
       ([Print ''Error: Both 'policy_name' and 'policy_document' are required for create-policy''],
        Inr ())"
  by (auto simp: dispatch_def print_def split: option.splits)

lemma dispatch_empty:
  "command ns = Some ''start-ec2'' \<and> instance_name ns = Some [] \<longrightarrow>
     dispatch p ns = ([Print ''Error: 'instance_name' is required for start-ec2''], Inr ())"
  "command ns = Some ''stop-ec2'' \<and> instance_name ns = Some [] \<longrightarrow>
     dispatch p ns = ([Print ''Error: 'instance_name' is required for stop-ec2''], Inr ())"
  "command ns = Some ''upload-s3'' \<and> (bucket_name ns = Some [] \<or> file_name ns = Some []) \<longrightarrow>
     dispatch p ns =
       ([Print ''Error: Both 'bucket_name' and 'file_name' are required for upload-s3''],
        Inr ())"
  "command ns = Some ''create-policy'' \<and> (policy_name ns = Some [] \<or> policy_document ns = Some []) \<longrightarrow>
     dispatch p ns =
       ([Print ''Error: Both 'policy_name' and 'policy_document' are required for create-policy''],
        Inr ())"
  by (auto simp: dispatch_def print_def split: option.splits)

section \<open>Starting and stopping instances\<close>

text \<open>
  C1. When the resolver returns instance ids for a name, there is at least one and they
  are all the ids of the response, in the order of the response. \<^verbatim>\<open>start_ec2\<close> (and
  \<^verbatim>\<open>stop_ec2\<close>) then makes, after the one describe call, exactly one start (stop) call,
  whose \<^verbatim>\<open>InstanceIds\<close> argument is that whole list, whatever the call does; and when
  the call returns, the operation prints the ids joined with a comma and a space, and
  returns.
\<close>
theorem start_stop_issue_one_batched_call:
  assumes "snd (get_instance_id_by_name p name) = Inr (Some ids)"
  shows "ids \<noteq> []
    \<and> (\<exists>response. ec2_describe_instances p (name_filters name) = Inr response
          \<and> ids = concat (map (\<lambda>r. map InstanceId (Instances r)) (Reservations response)))
    \<and> calls_of (fst (start_ec2 p name)) =
         [DescribeInstances (name_filters name), StartInstances ids]
    \<and> calls_of (fst (stop_ec2 p name)) =
         [DescribeInstances (name_filters name), StopInstances ids]
    \<and> (ec2_start_instances p ids = Inr () \<longrightarrow>
         start_ec2 p name =
           ([Call (DescribeInstances (name_filters name)), Call (StartInstances ids),
             Print (''Starting instance(s): '' @ join '', '' ids)], Inr ()))
    \<and> (ec2_stop_instances p ids = Inr () \<longrightarrow>
         stop_ec2 p name =
           ([Call (DescribeInstances (name_filters name)), Call (StopInstances ids),
             Print (''Stopping instance(s): '' @ join '', '' ids)], Inr ()))"
proof -
  from resolver_Some [OF assms] obtain response where
    d: "ec2_describe_instances p (name_filters name) = Inr response" and
    i: "ids = collect_instance_ids response" and
    ne: "ids \<noteq> []" and
    g: "get_instance_id_by_name p name =
          ([Call (DescribeInstances (name_filters name))], Inr (Some ids))"
    by blast
  have matched: "\<exists>response. ec2_describe_instances p (name_filters name) = Inr response
      \<and> ids = concat (map (\<lambda>r. map InstanceId (Instances r)) (Reservations response))"
    using d i by (auto simp: collect_instance_ids_concat)
  have start_calls: "calls_of (fst (start_ec2 p name)) =
      [DescribeInstances (name_filters name), StartInstances ids]"
    by (simp add: start_ec2_after_resolver [OF g ne] split: sum.splits)
  have stop_calls: "calls_of (fst (stop_ec2 p name)) =
      [DescribeInstances (name_filters name), StopInstances ids]"
    by (simp add: stop_ec2_after_resolver [OF g ne] split: sum.splits)
  have started: "ec2_start_instances p ids = Inr () \<longrightarrow>
      start_ec2 p name =
        ([Call (DescribeInstances (name_filters name)), Call (StartInstances ids),
          Print (''Starting instance(s): '' @ join '', '' ids)], Inr ())"
    by (simp add: start_ec2_after_resolver [OF g ne])
  have stopped: "ec2_stop_instances p ids = Inr () \<longrightarrow>
      stop_ec2 p name =
        ([Call (DescribeInstances (name_filters name)), Call (StopInstances ids),
          Print (''Stopping instance(s): '' @ join '', '' ids)], Inr ())"
    by (simp add: stop_ec2_after_resolver [OF g ne])
  from ne matched start_calls stop_calls started stopped show ?thesis by blast
qed

theorem start_stop_issue_one_batched_call_witness:
  "snd (get_instance_id_by_name (fake_provider (Inr two_instances) (Inr ())) ''web-1'') =
     Inr (Some [''i-0001'', ''i-0002''])
   \<and> start_ec2 (fake_provider (Inr two_instances) (Inr ())) ''web-1'' =
       ([Call (DescribeInstances (name_filters ''web-1'')),
         Call (StartInstances [''i-0001'', ''i-0002'']),
         Print ''Starting instance(s): i-0001, i-0002''], Inr ())
   \<and> stop_ec2 (fake_provider (Inr two_instances) (Inr ())) ''web-1'' =
       ([Call (DescribeInstances (name_filters ''web-1'')),
         Call (StopInstances [''i-0001'', ''i-0002'']),
         Print ''Stopping instance(s): i-0001, i-0002''], Inr ())"
proof -
  let ?p = "fake_provider (Inr two_instances) (Inr ())"
  have d: "ec2_describe_instances ?p (name_filters ''web-1'') = Inr two_instances"
    by (simp add: fake_provider_def)
  have c: "collect_instance_ids two_instances = [''i-0001'', ''i-0002'']"
    by (simp add: collect_instance_ids_def two_instances_def)
  have h: "snd (get_instance_id_by_name ?p ''web-1'') = Inr (Some [''i-0001'', ''i-0002''])"
    by (simp add: resolver_return [OF d] c)
  have s: "ec2_start_instances ?p [''i-0001'', ''i-0002''] = Inr ()"
    and t: "ec2_stop_instances ?p [''i-0001'', ''i-0002''] = Inr ()"
    by (simp_all add: fake_provider_def)
  from start_stop_issue_one_batched_call [OF h] s t h show ?thesis
    by simp
qed

text \<open>
  C2. When the describe call returns and no reservation of its response has an instance,
  \<^verbatim>\<open>start_ec2\<close> and \<^verbatim>\<open>stop_ec2\<close> do two things only: the describe call, and the line
  \<^verbatim>\<open>No instances found with the name: <name>\<close>. No start or stop call is made.
\<close>
theorem no_match_no_state_change:
  assumes "ec2_describe_instances p (name_filters name) = Inr response"
    and "\<forall>r \<in> set (Reservations response). Instances r = []"
  shows "start_ec2 p name =
           ([Call (DescribeInstances (name_filters name)),
             Print (''No instances found with the name: '' @ name)], Inr ())
       \<and> stop_ec2 p name =
           ([Call (DescribeInstances (name_filters name)),
             Print (''No instances found with the name: '' @ name)], Inr ())"
proof -
  from assms(2) have "collect_instance_ids response = []"
    by (simp add: no_ids_iff)
  with assms(1) have "get_instance_id_by_name p name =
      ([Call (DescribeInstances (name_filters name)),
        Print (''No instances found with the name: '' @ name)], Inr None)"
    by (simp add: resolver_return)
  then show ?thesis
    by (simp add: start_ec2_no_ids stop_ec2_no_ids)
qed

theorem no_match_no_state_change_witness:
  "start_ec2 (fake_provider (Inr no_instances) (Inr ())) ''ghost'' =
     ([Call (DescribeInstances (name_filters ''ghost'')),
       Print ''No instances found with the name: ghost''], Inr ())
   \<and> stop_ec2 (fake_provider (Inr no_instances) (Inr ())) ''ghost'' =
     ([Call (DescribeInstances (name_filters ''ghost'')),
       Print ''No instances found with the name: ghost''], Inr ())"
proof -
  let ?p = "fake_provider (Inr no_instances) (Inr ())"
  have d: "ec2_describe_instances ?p (name_filters ''ghost'') = Inr no_instances"
    by (simp add: fake_provider_def)
  have e: "\<forall>r \<in> set (Reservations no_instances). Instances r = []"
    by (simp add: no_instances_def)
  from no_match_no_state_change [OF d e] show ?thesis
    by simp
qed

section \<open>The resolver on a failing describe call\<close>

text \<open>
  C5. When the describe call raises, whatever the exception, the resolver catches it,
  prints it (\<^verbatim>\<open>Failed to retrieve instance ID: ...\<close> for a \<^verbatim>\<open>ClientError\<close>,
  \<^verbatim>\<open>Unexpected error: ...\<close> otherwise) and returns \<^verbatim>\<open>None\<close>: the value it returns for
  any clients whose describe call finds no instance.
\<close>
theorem resolver_failure_looks_like_no_match:
  assumes "ec2_describe_instances p (name_filters name) = Inl e"
  shows "snd (get_instance_id_by_name p name) = Inr None
    \<and> fst (get_instance_id_by_name p name) =
        [Call (DescribeInstances (name_filters name)),
         Print ((if isinstance e ClientErrorC then ''Failed to retrieve instance ID: ''
                 else ''Unexpected error: '') @ exn_str e)]
    \<and> (\<forall>q response.
          ec2_describe_instances q (name_filters name) = Inr response
          \<and> (\<forall>r \<in> set (Reservations response). Instances r = []) \<longrightarrow>
          snd (get_instance_id_by_name q name) = snd (get_instance_id_by_name p name))"
  using assms by (simp add: resolver_raise resolver_return no_ids_iff)

theorem resolver_failure_looks_like_no_match_witness:
  "snd (get_instance_id_by_name
          (fake_provider (Inl (ClientError ''AuthFailure'')) (Inr ())) ''web-1'') = Inr None
   \<and> snd (get_instance_id_by_name (fake_provider (Inr no_instances) (Inr ())) ''web-1'') =
       snd (get_instance_id_by_name
          (fake_provider (Inl (ClientError ''AuthFailure'')) (Inr ())) ''web-1'')
   \<and> fst (get_instance_id_by_name
          (fake_provider (Inl (ClientError ''AuthFailure'')) (Inr ())) ''web-1'') =
       [Call (DescribeInstances (name_filters ''web-1'')),
        Print ''Failed to retrieve instance ID: AuthFailure'']"
proof -
  let ?p = "fake_provider (Inl (ClientError ''AuthFailure'')) (Inr ())"
  let ?q = "fake_provider (Inr no_instances) (Inr ())"
  have h: "ec2_describe_instances ?p (name_filters ''web-1'') = Inl (ClientError ''AuthFailure'')"
    by (simp add: fake_provider_def)
  have d: "ec2_describe_instances ?q (name_filters ''web-1'') = Inr no_instances"
    by (simp add: fake_provider_def)
  have e: "\<forall>r \<in> set (Reservations no_instances). Instances r = []"
    by (simp add: no_instances_def)
  from resolver_failure_looks_like_no_match [OF h] have
    a: "snd (get_instance_id_by_name ?p ''web-1'') = Inr None" and
    b: "fst (get_instance_id_by_name ?p ''web-1'') =
        [Call (DescribeInstances (name_filters ''web-1'')),
         Print ''Failed to retrieve instance ID: AuthFailure'']" and
    c: "\<forall>q response.
          ec2_describe_instances q (name_filters ''web-1'') = Inr response
          \<and> (\<forall>r \<in> set (Reservations response). Instances r = []) \<longrightarrow>
          snd (get_instance_id_by_name q ''web-1'') = snd (get_instance_id_by_name ?p ''web-1'')"
    by simp_all
  from c d e have "snd (get_instance_id_by_name ?q ''web-1'') =
      snd (get_instance_id_by_name ?p ''web-1'')"
    by blast
  with a b show ?thesis by simp
qed

section \<open>Uploading a file\<close>




section \<open>Creating a policy\<close>

text \<open>
  C3. Whatever the name, the document and the behaviour of the clients, \<^verbatim>\<open>create_policy\<close>
  makes one call, \<^verbatim>\<open>iam.create_policy\<close>, whose \<^verbatim>\<open>PolicyDocument\<close> argument is the
  document it was given, character for character; and when the call returns, it prints
  \<^verbatim>\<open>Created policy <name>\<close>.
\<close>
theorem create_policy_passes_document_verbatim:
  "calls_of (fst (create_policy p name doc)) = [CreatePolicy name doc]
   \<and> map PolicyDocument (calls_of (fst (create_policy p name doc))) = [doc]
   \<and> (iam_create_policy p name doc = Inr () \<longrightarrow>
        create_policy p name doc =
          ([Call (CreatePolicy name doc), Print (''Created policy '' @ name)], Inr ()))"
  by (simp add: create_policy_cases split: sum.splits)

theorem create_policy_passes_document_verbatim_witness:
  \<open>create_policy (fake_provider (Inr no_instances) (Inr ())) ''ReadOnly''
      ''{"Version":"2012-10-17","Statement":[]}'' =
     ([Call (CreatePolicy ''ReadOnly'' ''{"Version":"2012-10-17","Statement":[]}''),
       Print ''Created policy ReadOnly''], Inr ())
   \<and> map PolicyDocument
        (calls_of (fst (create_policy (fake_provider (Inr no_instances) (Inr ())) ''ReadOnly''
           ''{"Version":"2012-10-17","Statement":[]}''))) =
       [''{"Version":"2012-10-17","Statement":[]}'']\<close>
proof -
  let ?p = "fake_provider (Inr no_instances) (Inr ())"
  have ok: \<open>iam_create_policy ?p ''ReadOnly'' ''{"Version":"2012-10-17","Statement":[]}'' = Inr ()\<close>
    by (simp add: fake_provider_def)
  from create_policy_passes_document_verbatim
         [of ?p "''ReadOnly''" \<open>''{"Version":"2012-10-17","Statement":[]}''\<close>] ok
  show ?thesis by simp
qed

section \<open>Exceptions and the exit status\<close>

text \<open>
  C6, as stated, does not hold for every invocation: \<^verbatim>\<open>start-ec2\<close> without its instance
  name fails with exit status 2, the argument parser's.
\<close>
theorem missing_argument_exits_with_status_2:
  "snd (main refuse_optionals (fake_provider (Inr two_instances) (Inr ())) [''start-ec2'']) = 2
   \<and> snd (main refuse_optionals (fake_provider (Inr two_instances) (Inr ())) [''start-ec2''])
       \<noteq> 0"
  by (simp add: main_def parse_args_def option_like_def subparsers_def)

text \<open>
  C6, amended. Whatever the clients do, no exception leaves the resolver, the four
  operations or the dispatcher. Whenever a call on a client raises, the operation's run
  is the calls made so far and one printed line, and the operation returns; the line
  carries the text of the exception, after the operation's own prefix for a
  \<^verbatim>\<open>ClientError\<close> and after \<^verbatim>\<open>Unexpected error: \<close> otherwise (an upload prints a fixed
  line for \<^verbatim>\<open>FileNotFoundError\<close> and for \<^verbatim>\<open>NoCredentialsError\<close>). A run is therefore the
  parser's own events and exit status when the parser exits, and the dispatcher's events
  with exit status 0 whenever the parser returns a namespace.
\<close>
theorem operation_faults_are_caught_and_printed:
  "(\<exists>v. snd (get_instance_id_by_name p n) = Inr v)
   \<and> snd (start_ec2 p n) = Inr ()
   \<and> snd (stop_ec2 p n) = Inr ()
   \<and> snd (upload_file_s3 p b f) = Inr ()
   \<and> snd (create_policy p pn pd) = Inr ()
   \<and> snd (dispatch p args) = Inr ()
   \<and> main optionals p argv =
       (case parse_args optionals argv of
          ParserExit out status \<Rightarrow> (out, status)
        | Parsed a \<Rightarrow> (fst (dispatch p a), 0))
   \<and> (\<forall>a. parse_args optionals argv = Parsed a \<longrightarrow> snd (main optionals p argv) = 0)
   \<and> (\<forall>e. ec2_describe_instances p (name_filters n) = Inl e \<longrightarrow>
         get_instance_id_by_name p n =
           ([Call (DescribeInstances (name_filters n)),
             Print ((if isinstance e ClientErrorC then ''Failed to retrieve instance ID: ''
                     else ''Unexpected error: '') @ exn_str e)], Inr None)
         \<and> start_ec2 p n =
           ([Call (DescribeInstances (name_filters n)),
             Print ((if isinstance e ClientErrorC then ''Failed to retrieve instance ID: ''
                     else ''Unexpected error: '') @ exn_str e)], Inr ())
         \<and> stop_ec2 p n =
           ([Call (DescribeInstances (name_filters n)),
             Print ((if isinstance e ClientErrorC then ''Failed to retrieve instance ID: ''
                     else ''Unexpected error: '') @ exn_str e)], Inr ()))
   \<and> (\<forall>ids e. snd (get_instance_id_by_name p n) = Inr (Some ids)
         \<and> ec2_start_instances p ids = Inl e \<longrightarrow>
         start_ec2 p n =
           ([Call (DescribeInstances (name_filters n)), Call (StartInstances ids),
             Print ((if isinstance e ClientErrorC then ''Failed to start instance(s): ''
                     else ''Unexpected error: '') @ exn_str e)], Inr ()))
   \<and> (\<forall>ids e. snd (get_instance_id_by_name p n) = Inr (Some ids)
         \<and> ec2_stop_instances p ids = Inl e \<longrightarrow>
         stop_ec2 p n =
           ([Call (DescribeInstances (name_filters n)), Call (StopInstances ids),
             Print ((if isinstance e ClientErrorC then ''Failed to stop instance(s): ''
                     else ''Unexpected error: '') @ exn_str e)], Inr ()))
   \<and> (\<forall>e. s3_upload_file p f b f = Inl e \<longrightarrow>
         upload_file_s3 p b f =
           ([Call (UploadFile f b f),
             Print (case e of
                      FileNotFoundError m \<Rightarrow> ''File '' @ f @ '' not found''
                    | NoCredentialsError m \<Rightarrow> ''AWS credentials not found''
                    | ClientError m \<Rightarrow> ''Failed to upload file to S3: '' @ m
                    | OtherException m \<Rightarrow> ''Unexpected error: '' @ m)], Inr ()))
   \<and> (\<forall>e. iam_create_policy p pn pd = Inl e \<longrightarrow>
         create_policy p pn pd =
           ([Call (CreatePolicy pn pd),
             Print ((if isinstance e ClientErrorC then ''Failed to create policy: ''
                     else ''Unexpected error: '') @ exn_str e)], Inr ()))"
proof -
  have r: "\<exists>v. snd (get_instance_id_by_name p n) = Inr v"
    using resolver_returns [of p n] by auto
  note ops = start_ec2_returns [of p n] stop_ec2_returns [of p n]
    upload_file_s3_returns [of p b f] create_policy_returns [of p pn pd]
    dispatch_returns [of p args] main_cases [of optionals p argv]
  have z: "\<forall>a. parse_args optionals argv = Parsed a \<longrightarrow> snd (main optionals p argv) = 0"
    by (simp add: main_cases)
  have d: "\<forall>e. ec2_describe_instances p (name_filters n) = Inl e \<longrightarrow>
         get_instance_id_by_name p n =
           ([Call (DescribeInstances (name_filters n)),
             Print ((if isinstance e ClientErrorC then ''Failed to retrieve instance ID: ''
                     else ''Unexpected error: '') @ exn_str e)], Inr None)
         \<and> start_ec2 p n =
           ([Call (DescribeInstances (name_filters n)),
             Print ((if isinstance e ClientErrorC then ''Failed to retrieve instance ID: ''
                     else ''Unexpected error: '') @ exn_str e)], Inr ())
         \<and> stop_ec2 p n =
           ([Call (DescribeInstances (name_filters n)),
             Print ((if isinstance e ClientErrorC then ''Failed to retrieve instance ID: ''
                     else ''Unexpected error: '') @ exn_str e)], Inr ())"
    using resolver_raise start_ec2_no_ids stop_ec2_no_ids by blast
  have s: "\<forall>ids e. snd (get_instance_id_by_name p n) = Inr (Some ids)
         \<and> ec2_start_instances p ids = Inl e \<longrightarrow>
         start_ec2 p n =
           ([Call (DescribeInstances (name_filters n)), Call (StartInstances ids),
             Print ((if isinstance e ClientErrorC then ''Failed to start instance(s): ''
                     else ''Unexpected error: '') @ exn_str e)], Inr ())"
    using start_ec2_start_raised by blast
  have t: "\<forall>ids e. snd (get_instance_id_by_name p n) = Inr (Some ids)
         \<and> ec2_stop_instances p ids = Inl e \<longrightarrow>
         stop_ec2 p n =
           ([Call (DescribeInstances (name_filters n)), Call (StopInstances ids),
             Print ((if isinstance e ClientErrorC then ''Failed to stop instance(s): ''
                     else ''Unexpected error: '') @ exn_str e)], Inr ())"
    using stop_ec2_stop_raised by blast
  have u: "\<forall>e. s3_upload_file p f b f = Inl e \<longrightarrow>
         upload_file_s3 p b f =
           ([Call (UploadFile f b f),
             Print (case e of
                      FileNotFoundError m \<Rightarrow> ''File '' @ f @ '' not found''
                    | NoCredentialsError m \<Rightarrow> ''AWS credentials not found''
                    | ClientError m \<Rightarrow> ''Failed to upload file to S3: '' @ m
                    | OtherException m \<Rightarrow> ''Unexpected error: '' @ m)], Inr ())"
    using upload_raised by blast
  have c: "\<forall>e. iam_create_policy p pn pd = Inl e \<longrightarrow>
         create_policy p pn pd =
           ([Call (CreatePolicy pn pd),
             Print ((if isinstance e ClientErrorC then ''Failed to create policy: ''
                     else ''Unexpected error: '') @ exn_str e)], Inr ())"
    using create_raised by blast
  from r ops z d s t u c show ?thesis by blast
qed

theorem operation_faults_are_caught_and_printed_witness:
  "snd (main refuse_optionals (fake_provider (Inl (ClientError ''AuthFailure'')) (Inr ()))
          [''start-ec2'', ''web-1'']) = 0
   \<and> snd (main refuse_optionals
          (fake_provider (Inr two_instances) (Inl (OtherException ''connection reset'')))
          [''start-ec2'', ''web-1'']) = 0
   \<and> start_ec2 (fake_provider (Inl (ClientError ''AuthFailure'')) (Inr ())) ''web-1'' =
       ([Call (DescribeInstances (name_filters ''web-1'')),
         Print ''Failed to retrieve instance ID: AuthFailure''], Inr ())
   \<and> start_ec2 (fake_provider (Inr two_instances) (Inl (OtherException ''connection reset'')))
        ''web-1'' =
       ([Call (DescribeInstances (name_filters ''web-1'')),
         Call (StartInstances [''i-0001'', ''i-0002'']),
         Print ''Unexpected error: connection reset''], Inr ())
   \<and> stop_ec2 (fake_provider (Inr two_instances) (Inl (ClientError ''UnauthorizedOperation'')))
        ''web-1'' =
       ([Call (DescribeInstances (name_filters ''web-1'')),
         Call (StopInstances [''i-0001'', ''i-0002'']),
         Print ''Failed to stop instance(s): UnauthorizedOperation''], Inr ())
   \<and> upload_file_s3
        (fake_provider (Inr two_instances) (Inl (NoCredentialsError ''Unable to locate credentials'')))
        ''my-bucket'' ''a.txt'' =
       ([Call (UploadFile ''a.txt'' ''my-bucket'' ''a.txt''),
         Print ''AWS credentials not found''], Inr ())
   \<and> create_policy
        (fake_provider (Inr two_instances) (Inl (ClientError ''UnauthorizedOperation'')))
        ''ReadOnly'' ''{}'' =
       ([Call (CreatePolicy ''ReadOnly'' ''{}''),
         Print ''Failed to create policy: UnauthorizedOperation''], Inr ())"
proof -
  let ?p = "fake_provider (Inl (ClientError ''AuthFailure'')) (Inr ())"
  let ?q = "fake_provider (Inr two_instances) (Inl (OtherException ''connection reset''))"
  let ?r = "fake_provider (Inr two_instances) (Inl (ClientError ''UnauthorizedOperation''))"
  let ?s = "fake_provider (Inr two_instances)
     (Inl (NoCredentialsError ''Unable to locate credentials''))"
  let ?argv = "[''start-ec2'', ''web-1'']"
  note P = operation_faults_are_caught_and_printed
    [of ?p "''web-1''" "''my-bucket''" "''a.txt''" "''ReadOnly''" "''{}''" empty_namespace
      refuse_optionals ?argv]
  note Q = operation_faults_are_caught_and_printed
    [of ?q "''web-1''" "''my-bucket''" "''a.txt''" "''ReadOnly''" "''{}''" empty_namespace
      refuse_optionals ?argv]
  note R = operation_faults_are_caught_and_printed
    [of ?r "''web-1''" "''my-bucket''" "''a.txt''" "''ReadOnly''" "''{}''" empty_namespace
      refuse_optionals ?argv]
  note S = operation_faults_are_caught_and_printed
    [of ?s "''web-1''" "''my-bucket''" "''a.txt''" "''ReadOnly''" "''{}''" empty_namespace
      refuse_optionals ?argv]
  have parsed: "parse_args refuse_optionals ?argv =
      Parsed (empty_namespace\<lparr>command := Some ''start-ec2'', instance_name := Some ''web-1''\<rparr>)"
    by (rule parse_start_web1)
  have dp: "ec2_describe_instances ?p (name_filters ''web-1'') = Inl (ClientError ''AuthFailure'')"
    by (simp add: fake_provider_def)
  have c: "collect_instance_ids two_instances = [''i-0001'', ''i-0002'']"
    by (simp add: collect_instance_ids_def two_instances_def)
  have dq: "ec2_describe_instances ?q (name_filters ''web-1'') = Inr two_instances"
    and dr: "ec2_describe_instances ?r (name_filters ''web-1'') = Inr two_instances"
    by (simp_all add: fake_provider_def)
  have gq: "snd (get_instance_id_by_name ?q ''web-1'') = Inr (Some [''i-0001'', ''i-0002''])"
    by (simp add: resolver_return [OF dq] c)
  have gr: "snd (get_instance_id_by_name ?r ''web-1'') = Inr (Some [''i-0001'', ''i-0002''])"
    by (simp add: resolver_return [OF dr] c)
  have sq: "ec2_start_instances ?q [''i-0001'', ''i-0002''] =
      Inl (OtherException ''connection reset'')"
    and tr: "ec2_stop_instances ?r [''i-0001'', ''i-0002''] =
      Inl (ClientError ''UnauthorizedOperation'')"
    and us: "s3_upload_file ?s ''a.txt'' ''my-bucket'' ''a.txt'' =
      Inl (NoCredentialsError ''Unable to locate credentials'')"
    and cr: "iam_create_policy ?r ''ReadOnly'' ''{}'' = Inl (ClientError ''UnauthorizedOperation'')"
    by (simp_all add: fake_provider_def)
  have 1: "snd (main refuse_optionals ?p ?argv) = 0"
    using P parsed by blast
  have 2: "snd (main refuse_optionals ?q ?argv) = 0"
    using Q parsed by blast
  from P dp have "start_ec2 ?p ''web-1'' =
      ([Call (DescribeInstances (name_filters ''web-1'')),
        Print ((if isinstance (ClientError ''AuthFailure'') ClientErrorC
                then ''Failed to retrieve instance ID: '' else ''Unexpected error: '')
               @ exn_str (ClientError ''AuthFailure''))], Inr ())"
    by blast
  then have 3: "start_ec2 ?p ''web-1'' =
      ([Call (DescribeInstances (name_filters ''web-1'')),
        Print ''Failed to retrieve instance ID: AuthFailure''], Inr ())"
    by simp
  from Q gq sq have "start_ec2 ?q ''web-1'' =
      ([Call (DescribeInstances (name_filters ''web-1'')),
        Call (StartInstances [''i-0001'', ''i-0002'']),
        Print ((if isinstance (OtherException ''connection reset'') ClientErrorC
                then ''Failed to start instance(s): '' else ''Unexpected error: '')
               @ exn_str (OtherException ''connection reset''))], Inr ())"
    by blast
  then have 4: "start_ec2 ?q ''web-1'' =
      ([Call (DescribeInstances (name_filters ''web-1'')),
        Call (StartInstances [''i-0001'', ''i-0002'']),
        Print ''Unexpected error: connection reset''], Inr ())"
    by simp
  from R gr tr have "stop_ec2 ?r ''web-1'' =
      ([Call (DescribeInstances (name_filters ''web-1'')),
        Call (StopInstances [''i-0001'', ''i-0002'']),
        Print ((if isinstance (ClientError ''UnauthorizedOperation'') ClientErrorC
                then ''Failed to stop instance(s): '' else ''Unexpected error: '')
               @ exn_str (ClientError ''UnauthorizedOperation''))], Inr ())"
    by blast
  then have 5: "stop_ec2 ?r ''web-1'' =
      ([Call (DescribeInstances (name_filters ''web-1'')),
        Call (StopInstances [''i-0001'', ''i-0002'']),
        Print ''Failed to stop instance(s): UnauthorizedOperation''], Inr ())"
    by simp
  from S us have "upload_file_s3 ?s ''my-bucket'' ''a.txt'' =
      ([Call (UploadFile ''a.txt'' ''my-bucket'' ''a.txt''),
        Print (case NoCredentialsError ''Unable to locate credentials'' of
                 FileNotFoundError m \<Rightarrow> ''File '' @ ''a.txt'' @ '' not found''
               | NoCredentialsError m \<Rightarrow> ''AWS credentials not found''
               | ClientError m \<Rightarrow> ''Failed to upload file to S3: '' @ m
               | OtherException m \<Rightarrow> ''Unexpected error: '' @ m)], Inr ())"
    by blast
  then have 6: "upload_file_s3 ?s ''my-bucket'' ''a.txt'' =
      ([Call (UploadFile ''a.txt'' ''my-bucket'' ''a.txt''),
        Print ''AWS credentials not found''], Inr ())"
    by simp
  from R cr have "create_policy ?r ''ReadOnly'' ''{}'' =
      ([Call (CreatePolicy ''ReadOnly'' ''{}''),
        Print ((if isinstance (ClientError ''UnauthorizedOperation'') ClientErrorC
                then ''Failed to create policy: '' else ''Unexpected error: '')
               @ exn_str (ClientError ''UnauthorizedOperation''))], Inr ())"
    by blast
  then have 7: "create_policy ?r ''ReadOnly'' ''{}'' =
      ([Call (CreatePolicy ''ReadOnly'' ''{}''),
        Print ''Failed to create policy: UnauthorizedOperation''], Inr ())"
    by simp
  from 1 2 3 4 5 6 7 show ?thesis by blast
qed

section \<open>The command line\<close>

text \<open>
  C7. A recognized subcommand given fewer positional arguments than its subparser takes
  (none of them option-like) is rejected by the parser: usage and an error naming exactly
  the missing arguments are printed, the process exits with status 2, and no call on a
  client is made. And should the dispatcher meet a namespace in which a required argument
  of the subcommand is \<^verbatim>\<open>None\<close>, it prints its own error message, which names the
  argument, and runs no operation.
\<close>
theorem missing_positional_is_rejected:
  "((cmd, positionals) \<in> set subparsers \<and> \<not> list_ex option_like arg_strings
      \<and> length arg_strings < length positionals \<longrightarrow>
      main optionals p (cmd # arg_strings) =
        ([PrintUsage, ParserError (RequiredArguments (drop (length arg_strings) positionals))], 2)
      \<and> drop (length arg_strings) positionals \<noteq> []
      \<and> calls_of (fst (main optionals p (cmd # arg_strings))) = [])
   \<and> (command ns = Some ''start-ec2'' \<and> instance_name ns = None \<longrightarrow>
        dispatch p ns = ([Print ''Error: 'instance_name' is required for start-ec2''], Inr ()))
   \<and> (command ns = Some ''stop-ec2'' \<and> instance_name ns = None \<longrightarrow>
        dispatch p ns = ([Print ''Error: 'instance_name' is required for stop-ec2''], Inr ()))
   \<and> (command ns = Some ''upload-s3'' \<and> (bucket_name ns = None \<or> file_name ns = None) \<longrightarrow>
        dispatch p ns =
          ([Print ''Error: Both 'bucket_name' and 'file_name' are required for upload-s3''],
           Inr ()))
   \<and> (command ns = Some ''create-policy''
        \<and> (policy_name ns = None \<or> policy_document ns = None) \<longrightarrow>
        dispatch p ns =
          ([Print
              ''Error: Both 'policy_name' and 'policy_document' are required for create-policy''],
           Inr ()))"
proof -
  have parser: "(cmd, positionals) \<in> set subparsers \<and> \<not> list_ex option_like arg_strings
      \<and> length arg_strings < length positionals \<longrightarrow>
      main optionals p (cmd # arg_strings) =
        ([PrintUsage, ParserError (RequiredArguments (drop (length arg_strings) positionals))], 2)
      \<and> drop (length arg_strings) positionals \<noteq> []
      \<and> calls_of (fst (main optionals p (cmd # arg_strings))) = []"
  proof (intro impI, elim conjE)
    assume a: "(cmd, positionals) \<in> set subparsers"
      and b: "\<not> list_ex option_like arg_strings"
      and c: "length arg_strings < length positionals"
    show "main optionals p (cmd # arg_strings) =
        ([PrintUsage, ParserError (RequiredArguments (drop (length arg_strings) positionals))], 2)
      \<and> drop (length arg_strings) positionals \<noteq> []
      \<and> calls_of (fst (main optionals p (cmd # arg_strings))) = []"
      using c by (simp add: main_def parse_args_missing [OF a b c])
  qed
  from parser dispatch_absent [of ns p] show ?thesis by blast
qed

theorem missing_positional_is_rejected_witness:
  "main refuse_optionals (fake_provider (Inr two_instances) (Inr ())) [''start-ec2''] =
     ([PrintUsage, ParserError (RequiredArguments [''instance_name''])], 2)
   \<and> main refuse_optionals (fake_provider (Inr two_instances) (Inr ()))
       [''upload-s3'', ''my-bucket''] =
     ([PrintUsage, ParserError (RequiredArguments [''file_name''])], 2)
   \<and> dispatch (fake_provider (Inr two_instances) (Inr ()))
       (empty_namespace\<lparr>command := Some ''start-ec2''\<rparr>) =
     ([Print ''Error: 'instance_name' is required for start-ec2''], Inr ())
   \<and> dispatch (fake_provider (Inr two_instances) (Inr ()))
       (empty_namespace\<lparr>command := Some ''stop-ec2''\<rparr>) =
     ([Print ''Error: 'instance_name' is required for stop-ec2''], Inr ())
   \<and> dispatch (fake_provider (Inr two_instances) (Inr ()))
       (empty_namespace\<lparr>command := Some ''upload-s3'', bucket_name := Some ''my-bucket''\<rparr>) =
     ([Print ''Error: Both 'bucket_name' and 'file_name' are required for upload-s3''], Inr ())
   \<and> dispatch (fake_provider (Inr two_instances) (Inr ()))
       (empty_namespace\<lparr>command := Some ''create-policy'', policy_name := Some ''ReadOnly''\<rparr>) =
     ([Print ''Error: Both 'policy_name' and 'policy_document' are required for create-policy''],
      Inr ())"
proof -
  let ?p = "fake_provider (Inr two_instances) (Inr ())"
  have s: "(''start-ec2'', [''instance_name'']) \<in> set subparsers"
    and u: "(''upload-s3'', [''bucket_name'', ''file_name'']) \<in> set subparsers"
    by (simp_all add: subparsers_def)
  have n: "\<not> list_ex option_like []" and m: "\<not> list_ex option_like [''my-bucket'']"
    by (simp_all add: option_like_def)
  have 1: "main refuse_optionals ?p [''start-ec2''] =
      ([PrintUsage, ParserError (RequiredArguments [''instance_name''])], 2)"
    using missing_positional_is_rejected
      [of "''start-ec2''" "[''instance_name'']" "[]" refuse_optionals ?p empty_namespace] s n
    by simp
  have 2: "main refuse_optionals ?p [''upload-s3'', ''my-bucket''] =
      ([PrintUsage, ParserError (RequiredArguments [''file_name''])], 2)"
    using missing_positional_is_rejected
      [of "''upload-s3''" "[''bucket_name'', ''file_name'']" "[''my-bucket'']" refuse_optionals
        ?p empty_namespace] u m
    by simp
  have 3: "dispatch ?p (empty_namespace\<lparr>command := Some ''start-ec2''\<rparr>) =
      ([Print ''Error: 'instance_name' is required for start-ec2''], Inr ())"
    using missing_positional_is_rejected
      [of "''start-ec2''" "[''instance_name'']" "[]" refuse_optionals ?p
        "empty_namespace\<lparr>command := Some ''start-ec2''\<rparr>"]
    by (simp add: empty_namespace_def)
  have 4: "dispatch ?p (empty_namespace\<lparr>command := Some ''stop-ec2''\<rparr>) =
      ([Print ''Error: 'instance_name' is required for stop-ec2''], Inr ())"
    using missing_positional_is_rejected
      [of "''start-ec2''" "[''instance_name'']" "[]" refuse_optionals ?p
        "empty_namespace\<lparr>command := Some ''stop-ec2''\<rparr>"]
    by (simp add: empty_namespace_def)
  have 5: "dispatch ?p
      (empty_namespace\<lparr>command := Some ''upload-s3'', bucket_name := Some ''my-bucket''\<rparr>) =
      ([Print ''Error: Both 'bucket_name' and 'file_name' are required for upload-s3''], Inr ())"
    using missing_positional_is_rejected
      [of "''start-ec2''" "[''instance_name'']" "[]" refuse_optionals ?p
        "empty_namespace\<lparr>command := Some ''upload-s3'', bucket_name := Some ''my-bucket''\<rparr>"]
    by (simp add: empty_namespace_def)
  have 6: "dispatch ?p
      (empty_namespace\<lparr>command := Some ''create-policy'', policy_name := Some ''ReadOnly''\<rparr>) =
      ([Print ''Error: Both 'policy_name' and 'policy_document' are required for create-policy''],
       Inr ())"
    using missing_positional_is_rejected
      [of "''start-ec2''" "[''instance_name'']" "[]" refuse_optionals ?p
        "empty_namespace\<lparr>command := Some ''create-policy'', policy_name := Some ''ReadOnly''\<rparr>"]
    by (simp add: empty_namespace_def)
  from 1 2 3 4 5 6 show ?thesis by blast
qed

text \<open>
  C8, as stated, does not hold for an unrecognized subcommand: the parser rejects
  \<^verbatim>\<open>frobnicate\<close> with usage and an invalid-choice error, and the process exits with
  status 2, not 0.
\<close>
theorem unrecognized_subcommand_exits_with_status_2:
  "main refuse_optionals (fake_provider (Inr no_instances) (Inr ())) [''frobnicate''] =
     ([PrintUsage, ParserError (InvalidChoice ''frobnicate'')], 2)
   \<and> snd (main refuse_optionals (fake_provider (Inr no_instances) (Inr ())) [''frobnicate''])
       \<noteq> 0"
  by (simp add: main_def parse_args_def option_like_def subparsers_def)

text \<open>
  C8, amended. With no argument at all the program prints help, makes no call on a client
  and exits with status 0. With a first argument that names no subparser, and no
  option-like argument, the parser prints usage and an invalid-choice error, no call on a
  client is made, and the process exits with status 2. The dispatcher prints help, and
  does nothing else, for every namespace whose command is none of the four; among the
  command lines with no option-like argument, only the empty one gives such a namespace.
\<close>
theorem no_or_unrecognized_subcommand:
  "main optionals p [] = ([PrintHelp], 0)
   \<and> (\<not> list_ex option_like (c # rest) \<and> c \<notin> set (map fst subparsers) \<longrightarrow>
        main optionals p (c # rest) = ([PrintUsage, ParserError (InvalidChoice c)], 2)
        \<and> calls_of (fst (main optionals p (c # rest))) = [])
   \<and> (command ns \<notin> Some ` set (map fst subparsers) \<longrightarrow>
        dispatch p ns = ([PrintHelp], Inr ()))
   \<and> (\<not> list_ex option_like argv \<and> parse_args optionals argv = Parsed ns
        \<and> command ns \<notin> Some ` set (map fst subparsers) \<longrightarrow> argv = [])"
proof -
  have none: "command empty_namespace \<notin> Some ` set (map fst subparsers)"
    by (simp add: empty_namespace_def)
  have a: "main optionals p [] = ([PrintHelp], 0)"
    by (simp add: main_def parse_args_empty dispatch_help [OF none])
  have b: "\<not> list_ex option_like (c # rest) \<and> c \<notin> set (map fst subparsers) \<longrightarrow>
        main optionals p (c # rest) = ([PrintUsage, ParserError (InvalidChoice c)], 2)
        \<and> calls_of (fst (main optionals p (c # rest))) = []"
  proof (intro impI, elim conjE)
    assume o: "\<not> list_ex option_like (c # rest)" and u: "c \<notin> set (map fst subparsers)"
    show "main optionals p (c # rest) = ([PrintUsage, ParserError (InvalidChoice c)], 2)
        \<and> calls_of (fst (main optionals p (c # rest))) = []"
      by (simp add: main_def parse_args_invalid_choice [OF o u])
  qed
  have c: "command ns \<notin> Some ` set (map fst subparsers) \<longrightarrow>
        dispatch p ns = ([PrintHelp], Inr ())"
    using dispatch_help by blast
  have d: "\<not> list_ex option_like argv \<and> parse_args optionals argv = Parsed ns
        \<and> command ns \<notin> Some ` set (map fst subparsers) \<longrightarrow> argv = []"
    using parsed_command by blast
  from a b c d show ?thesis by blast
qed

theorem no_or_unrecognized_subcommand_witness:
  "main refuse_optionals (fake_provider (Inr two_instances) (Inr ())) [] = ([PrintHelp], 0)
   \<and> main refuse_optionals (fake_provider (Inr two_instances) (Inr ()))
        [''frobnicate'', ''web-1''] =
       ([PrintUsage, ParserError (InvalidChoice ''frobnicate'')], 2)
   \<and> dispatch (fake_provider (Inr two_instances) (Inr ())) empty_namespace =
       ([PrintHelp], Inr ())
   \<and> parse_args refuse_optionals [] = Parsed empty_namespace"
proof -
  let ?p = "fake_provider (Inr two_instances) (Inr ())"
  note T = no_or_unrecognized_subcommand
    [of refuse_optionals ?p "''frobnicate''" "[''web-1'']" empty_namespace "[]"]
  have o: "\<not> list_ex option_like [''frobnicate'', ''web-1'']"
    by (simp add: option_like_def)
  have u: "''frobnicate'' \<notin> set (map fst subparsers)"
    by (simp add: subparsers_def)
  have none: "command empty_namespace \<notin> Some ` set (map fst subparsers)"
    by (simp add: empty_namespace_def)
  have e: "parse_args refuse_optionals [] = Parsed empty_namespace"
    by (rule parse_args_empty)
  from T o u none e show ?thesis by blast
qed

text \<open>
  C10. The parser accepts an empty string for a positional argument. The dispatcher then
  treats it as missing: for each of the four subcommands, when a required argument is the
  empty string, the run prints the error message that names the argument, runs no
  operation (no call on a client is made) and exits with status 0.
\<close>
theorem empty_argument_treated_as_missing:
  "parse_args optionals [''start-ec2'', ''''] =
     Parsed (empty_namespace\<lparr>command := Some ''start-ec2'', instance_name := Some ''''\<rparr>)
   \<and> main optionals p [''start-ec2'', ''''] =
       ([Print ''Error: 'instance_name' is required for start-ec2''], 0)
   \<and> main optionals p [''stop-ec2'', ''''] =
       ([Print ''Error: 'instance_name' is required for stop-ec2''], 0)
   \<and> (\<not> option_like x \<longrightarrow>
        main optionals p [''upload-s3'', '''', x] =
          ([Print ''Error: Both 'bucket_name' and 'file_name' are required for upload-s3''], 0)
        \<and> main optionals p [''upload-s3'', x, ''''] =
          ([Print ''Error: Both 'bucket_name' and 'file_name' are required for upload-s3''], 0)
        \<and> main optionals p [''create-policy'', '''', x] =
          ([Print
              ''Error: Both 'policy_name' and 'policy_document' are required for create-policy''],
           0)
        \<and> main optionals p [''create-policy'', x, ''''] =
          ([Print
              ''Error: Both 'policy_name' and 'policy_document' are required for create-policy''],
           0))
   \<and> (command ns = Some ''start-ec2'' \<and> instance_name ns = Some '''' \<longrightarrow>
        dispatch p ns = ([Print ''Error: 'instance_name' is required for start-ec2''], Inr ()))
   \<and> (command ns = Some ''stop-ec2'' \<and> instance_name ns = Some '''' \<longrightarrow>
        dispatch p ns = ([Print ''Error: 'instance_name' is required for stop-ec2''], Inr ()))
   \<and> (command ns = Some ''upload-s3'' \<and> (bucket_name ns = Some '''' \<or> file_name ns = Some '''')
        \<longrightarrow>
        dispatch p ns =
          ([Print ''Error: Both 'bucket_name' and 'file_name' are required for upload-s3''],
           Inr ()))
   \<and> (command ns = Some ''create-policy''
        \<and> (policy_name ns = Some '''' \<or> policy_document ns = Some '''') \<longrightarrow>
        dispatch p ns =
          ([Print
              ''Error: Both 'policy_name' and 'policy_document' are required for create-policy''],
           Inr ()))"
proof -
  have start: "main optionals p [''start-ec2'', ''''] =
      ([Print ''Error: 'instance_name' is required for start-ec2''], 0)"
    by (rule main_parsed [OF parse_one(1)])
      (simp add: dispatch_empty(1) [rule_format] empty_namespace_def)
  have stop: "main optionals p [''stop-ec2'', ''''] =
      ([Print ''Error: 'instance_name' is required for stop-ec2''], 0)"
    by (rule main_parsed [OF parse_one(2)])
      (simp add: dispatch_empty(2) [rule_format] empty_namespace_def)
  have two: "\<not> option_like x \<longrightarrow>
        main optionals p [''upload-s3'', '''', x] =
          ([Print ''Error: Both 'bucket_name' and 'file_name' are required for upload-s3''], 0)
        \<and> main optionals p [''upload-s3'', x, ''''] =
          ([Print ''Error: Both 'bucket_name' and 'file_name' are required for upload-s3''], 0)
        \<and> main optionals p [''create-policy'', '''', x] =
          ([Print
              ''Error: Both 'policy_name' and 'policy_document' are required for create-policy''],
           0)
        \<and> main optionals p [''create-policy'', x, ''''] =
          ([Print
              ''Error: Both 'policy_name' and 'policy_document' are required for create-policy''],
           0)"
  proof
    assume x: "\<not> option_like x"
    note e = empty_not_option_like
    have 1: "main optionals p [''upload-s3'', '''', x] =
        ([Print ''Error: Both 'bucket_name' and 'file_name' are required for upload-s3''], 0)"
      by (rule main_parsed [OF parse_two(1) [OF e x]])
        (simp add: dispatch_empty(3) [rule_format] empty_namespace_def)
    have 2: "main optionals p [''upload-s3'', x, ''''] =
        ([Print ''Error: Both 'bucket_name' and 'file_name' are required for upload-s3''], 0)"
      by (rule main_parsed [OF parse_two(1) [OF x e]])
        (simp add: dispatch_empty(3) [rule_format] empty_namespace_def)
    have 3: "main optionals p [''create-policy'', '''', x] =
        ([Print
            ''Error: Both 'policy_name' and 'policy_document' are required for create-policy''],
         0)"
      by (rule main_parsed [OF parse_two(2) [OF e x]])
        (simp add: dispatch_empty(4) [rule_format] empty_namespace_def)
    have 4: "main optionals p [''create-policy'', x, ''''] =
        ([Print
            ''Error: Both 'policy_name' and 'policy_document' are required for create-policy''],
         0)"
      by (rule main_parsed [OF parse_two(2) [OF x e]])
        (simp add: dispatch_empty(4) [rule_format] empty_namespace_def)
    from 1 2 3 4 show "main optionals p [''upload-s3'', '''', x] =
          ([Print ''Error: Both 'bucket_name' and 'file_name' are required for upload-s3''], 0)
        \<and> main optionals p [''upload-s3'', x, ''''] =
          ([Print ''Error: Both 'bucket_name' and 'file_name' are required for upload-s3''], 0)
        \<and> main optionals p [''create-policy'', '''', x] =
          ([Print
              ''Error: Both 'policy_name' and 'policy_document' are required for create-policy''],
           0)
        \<and> main optionals p [''create-policy'', x, ''''] =
          ([Print
              ''Error: Both 'policy_name' and 'policy_document' are required for create-policy''],
           0)"
      by blast
  qed
  from parse_one(1) [of optionals] start stop two dispatch_empty [of ns p]
  show ?thesis by blast
qed

theorem empty_argument_treated_as_missing_witness:
  "main refuse_optionals (fake_provider (Inr two_instances) (Inr ())) [''start-ec2'', ''''] =
     ([Print ''Error: 'instance_name' is required for start-ec2''], 0)
   \<and> main refuse_optionals (fake_provider (Inr two_instances) (Inr ()))
       [''upload-s3'', ''my-bucket'', ''''] =
     ([Print ''Error: Both 'bucket_name' and 'file_name' are required for upload-s3''], 0)
   \<and> main refuse_optionals (fake_provider (Inr two_instances) (Inr ()))
       [''create-policy'', '''', ''{}''] =
     ([Print ''Error: Both 'policy_name' and 'policy_document' are required for create-policy''],
      0)
   \<and> dispatch (fake_provider (Inr two_instances) (Inr ()))
       (empty_namespace\<lparr>command := Some ''stop-ec2'', instance_name := Some ''''\<rparr>) =
     ([Print ''Error: 'instance_name' is required for stop-ec2''], Inr ())
   \<and> dispatch (fake_provider (Inr two_instances) (Inr ()))
       (empty_namespace\<lparr>command := Some ''start-ec2'', instance_name := Some ''''\<rparr>) =
     ([Print ''Error: 'instance_name' is required for start-ec2''], Inr ())
   \<and> dispatch (fake_provider (Inr two_instances) (Inr ()))
       (empty_namespace\<lparr>command := Some ''upload-s3'', bucket_name := Some ''my-bucket'',
          file_name := Some ''''\<rparr>) =
     ([Print ''Error: Both 'bucket_name' and 'file_name' are required for upload-s3''], Inr ())
   \<and> dispatch (fake_provider (Inr two_instances) (Inr ()))
       (empty_namespace\<lparr>command := Some ''create-policy'', policy_name := Some '''',
          policy_document := Some ''{}''\<rparr>) =
     ([Print ''Error: Both 'policy_name' and 'policy_document' are required for create-policy''],
      Inr ())"
proof -
  let ?p = "fake_provider (Inr two_instances) (Inr ())"
  have b: "\<not> option_like ''my-bucket''" and d: "\<not> option_like ''{}''"
    by (simp_all add: option_like_def)
  have 1: "main refuse_optionals ?p [''start-ec2'', ''''] =
      ([Print ''Error: 'instance_name' is required for start-ec2''], 0)"
    using empty_argument_treated_as_missing
      [of refuse_optionals ?p "''my-bucket''" empty_namespace]
    by blast
  have 2: "main refuse_optionals ?p [''upload-s3'', ''my-bucket'', ''''] =
      ([Print ''Error: Both 'bucket_name' and 'file_name' are required for upload-s3''], 0)"
    using empty_argument_treated_as_missing
      [of refuse_optionals ?p "''my-bucket''" empty_namespace] b
    by blast
  have 3: "main refuse_optionals ?p [''create-policy'', '''', ''{}''] =
      ([Print ''Error: Both 'policy_name' and 'policy_document' are required for create-policy''],
       0)"
    using empty_argument_treated_as_missing
      [of refuse_optionals ?p "''{}''" empty_namespace] d
    by blast
  have 4: "dispatch ?p
      (empty_namespace\<lparr>command := Some ''stop-ec2'', instance_name := Some ''''\<rparr>) =
      ([Print ''Error: 'instance_name' is required for stop-ec2''], Inr ())"
    using empty_argument_treated_as_missing
      [of refuse_optionals ?p "''{}''"
        "empty_namespace\<lparr>command := Some ''stop-ec2'', instance_name := Some ''''\<rparr>"]
    by (simp add: empty_namespace_def)
  have 5: "dispatch ?p
      (empty_namespace\<lparr>command := Some ''start-ec2'', instance_name := Some ''''\<rparr>) =
      ([Print ''Error: 'instance_name' is required for start-ec2''], Inr ())"
    using empty_argument_treated_as_missing
      [of refuse_optionals ?p "''{}''"
        "empty_namespace\<lparr>command := Some ''start-ec2'', instance_name := Some ''''\<rparr>"]
    by (simp add: empty_namespace_def)
  have 6: "dispatch ?p
      (empty_namespace\<lparr>command := Some ''upload-s3'', bucket_name := Some ''my-bucket'',
          file_name := Some ''''\<rparr>) =
      ([Print ''Error: Both 'bucket_name' and 'file_name' are required for upload-s3''], Inr ())"
    using empty_argument_treated_as_missing
      [of refuse_optionals ?p "''{}''"
        "empty_namespace\<lparr>command := Some ''upload-s3'', bucket_name := Some ''my-bucket'',
          file_name := Some ''''\<rparr>"]
    by (simp add: empty_namespace_def)
  have 7: "dispatch ?p
      (empty_namespace\<lparr>command := Some ''create-policy'', policy_name := Some '''',
          policy_document := Some ''{}''\<rparr>) =
      ([Print ''Error: Both 'policy_name' and 'policy_document' are required for create-policy''],
       Inr ())"
    using empty_argument_treated_as_missing
      [of refuse_optionals ?p "''{}''"
        "empty_namespace\<lparr>command := Some ''create-policy'', policy_name := Some '''',
          policy_document := Some ''{}''\<rparr>"]
    by (simp add: empty_namespace_def)
  from 1 2 3 4 5 6 7 show ?thesis by blast
qed

end
